theory Spec2Isabelle
  imports Main "HOL-Library.Char_ord" "HOL-Library.List_Lexorder"
begin

section \<open>Configuration constants\<close>

text \<open>
  The three services (\<^verbatim>\<open>webhook/main.ts\<close>, the cleanup-only maintainer and the older
  combined labeler) declare the same constants.
\<close>

definition RECENTLY_CREATED_LABEL :: string where
  "RECENTLY_CREATED_LABEL = ''recently created''"

definition RECENTLY_UPDATED_LABEL :: string where
  "RECENTLY_UPDATED_LABEL = ''recently updated''"

definition RECENT_THRESHOLD_HOURS :: int where
  "RECENT_THRESHOLD_HOURS = 24"

section \<open>Data of the Todoist client\<close>

text \<open>
  \<^verbatim>\<open>Label\<close> and \<^verbatim>\<open>Task\<close> come from the Todoist client library. Only the fields the
  services read are kept. A field the code guards with \<^verbatim>\<open>||\<close> or \<^verbatim>\<open>?.\<close> is an option
  (\<open>None\<close> is \<^verbatim>\<open>null\<close>/\<^verbatim>\<open>undefined\<close>). The label identifier is opaque and assigned by
  the store.
\<close>

record Label =
  label_id :: nat
  label_name :: string

record Task =
  task_id :: string
  content :: string
  addedAt :: "string option"
  updatedAt :: "string option"
  labels :: "string list option"

text \<open>\<^verbatim>\<open>task.labels || []\<close>\<close>

definition labels_or_empty :: "Task \<Rightarrow> string list" where
  "labels_or_empty task = (case labels task of None \<Rightarrow> [] | Some ls \<Rightarrow> ls)"

text \<open>\<^verbatim>\<open>a || b\<close> on an optional string: \<^verbatim>\<open>null\<close>, \<^verbatim>\<open>undefined\<close> and the empty string are falsy.\<close>

definition str_or :: "string option \<Rightarrow> string \<Rightarrow> string" where
  "str_or a b = (case a of None \<Rightarrow> b | Some s \<Rightarrow> if s = [] then b else s)"

section \<open>Dates\<close>

text \<open>
  A JavaScript \<^verbatim>\<open>Date\<close> is its time value in milliseconds, or \<^verbatim>\<open>NaN\<close> for an Invalid
  Date (\<open>None\<close>). \<^verbatim>\<open>Date.parse\<close> is a parameter \<open>parse\<close> of everything that reads a
  timestamp; \<^verbatim>\<open>new Date('')\<close> is always invalid. Comparisons follow IEEE: every
  ordering comparison with \<^verbatim>\<open>NaN\<close> is false, and \<^verbatim>\<open>NaN !== x\<close> is true.
\<close>

type_synonym date = "int option"

definition new_Date :: "(string \<Rightarrow> int option) \<Rightarrow> string \<Rightarrow> date" where
  "new_Date parse s = (if s = [] then None else parse s)"

definition date_ge :: "date \<Rightarrow> date \<Rightarrow> bool" where
  "date_ge a b = (case a of None \<Rightarrow> False
                  | Some x \<Rightarrow> (case b of None \<Rightarrow> False | Some y \<Rightarrow> x \<ge> y))"

definition getTime_differs :: "date \<Rightarrow> date \<Rightarrow> bool" where
  "getTime_differs a b = (case a of None \<Rightarrow> True
                  | Some x \<Rightarrow> (case b of None \<Rightarrow> True | Some y \<Rightarrow> x \<noteq> y))"

text \<open>
  \<^verbatim>\<open>new Date(now.getTime() - (RECENT_THRESHOLD_HOURS * 60 * 60 * 1000))\<close>, with \<open>now\<close>
  the time value of \<^verbatim>\<open>new Date()\<close>.
\<close>

definition recentThreshold :: "int \<Rightarrow> date" where
  "recentThreshold now = Some (now - (RECENT_THRESHOLD_HOURS * 60 * 60 * 1000))"

section \<open>The recency tests of the sweeps\<close>

text \<open>
  Both sweeps compute, per task,
  \<^verbatim>\<open>createdDate = new Date(task.addedAt || '')\<close>,
  \<^verbatim>\<open>updatedDate = new Date(task.updatedAt || task.addedAt || '')\<close>,
  \<^verbatim>\<open>isRecentlyCreated = createdDate >= recentThreshold\<close> and
  \<^verbatim>\<open>isRecentlyUpdated = updatedDate >= recentThreshold &&
     updatedDate.getTime() !== createdDate.getTime()\<close>.
\<close>

definition createdDate :: "(string \<Rightarrow> int option) \<Rightarrow> Task \<Rightarrow> date" where
  "createdDate parse task = new_Date parse (str_or (addedAt task) [])"

definition updatedDate :: "(string \<Rightarrow> int option) \<Rightarrow> Task \<Rightarrow> date" where
  "updatedDate parse task = new_Date parse (str_or (updatedAt task) (str_or (addedAt task) []))"

definition isRecentlyCreated :: "(string \<Rightarrow> int option) \<Rightarrow> date \<Rightarrow> Task \<Rightarrow> bool" where
  "isRecentlyCreated parse threshold task = date_ge (createdDate parse task) threshold"

definition isRecentlyUpdated :: "(string \<Rightarrow> int option) \<Rightarrow> date \<Rightarrow> Task \<Rightarrow> bool" where
  "isRecentlyUpdated parse threshold task =
     (date_ge (updatedDate parse task) threshold
      \<and> getTime_differs (updatedDate parse task) (createdDate parse task))"

section \<open>Editing a label list\<close>

text \<open>
  The combined labeler handles each of the two labels with the same four lines:
  \<^verbatim>\<open>
  if (should && !newLabels.includes(name)) {
    newLabels.push(name);
  } else if (!should && newLabels.includes(name)) {
    const index = newLabels.indexOf(name);
    newLabels.splice(index, 1);
  }
  \<close>
  \<^verbatim>\<open>indexOf\<close> followed by \<^verbatim>\<open>splice(index, 1)\<close> deletes the first occurrence, which
  is \<^const>\<open>remove1\<close>.
\<close>

definition handle_label :: "string list \<Rightarrow> string \<Rightarrow> bool \<Rightarrow> string list" where
  "handle_label newLabels name should =
     (if should \<and> name \<notin> set newLabels then newLabels @ [name]
      else if \<not> should \<and> name \<in> set newLabels then remove1 name newLabels
      else newLabels)"

section \<open>The task store and its client\<close>

text \<open>
  The Todoist client and the service behind it are an external library, seen here only
  through the calls the three programs make. The remote store holds the label collection
  and the tasks. Every call of the client is a request that may fail: \<open>w_faults\<close> is the
  schedule of the coming requests (\<open>True\<close>: the request throws; an exhausted schedule
  means no further failure), and \<open>w_log\<close> records every request made, in order.
\<close>

datatype api_call =
    GetLabels
  | AddLabel string
  | GetTask string
  | UpdateTask string "string list"
  | GetTasks string
  | GetTasksByFilter string

datatype error = ApiNotInitialized | RemoteCallFailure | TypeError | DataError

record world =
  w_labels :: "Label list"
  w_tasks :: "Task list"
  w_faults :: "bool list"
  w_log :: "api_call list"

text \<open>
  An \<^verbatim>\<open>async\<close> function over the store: it returns a value or throws, and leaves a new
  state of the world.
\<close>

type_synonym 'a io = "world \<Rightarrow> (error + 'a) \<times> world"

definition ret :: "'a \<Rightarrow> 'a io" where
  "ret x w = (Inr x, w)"

definition throwE :: "error \<Rightarrow> 'a io" where
  "throwE e w = (Inl e, w)"

definition bindE :: "'a io \<Rightarrow> ('a \<Rightarrow> 'b io) \<Rightarrow> 'b io" where
  "bindE m f w = (case m w of (Inl e, w') \<Rightarrow> (Inl e, w') | (Inr x, w') \<Rightarrow> f x w')"

text \<open>\<^verbatim>\<open>try { m } catch (error) { h(error) }\<close>\<close>

definition try_catch :: "'a io \<Rightarrow> (error \<Rightarrow> 'a io) \<Rightarrow> 'a io" where
  "try_catch m h w = (case m w of (Inl e, w') \<Rightarrow> h e w' | (Inr x, w') \<Rightarrow> (Inr x, w'))"

text \<open>One request: it is logged, and the schedule says whether it fails.\<close>

definition api_request :: "api_call \<Rightarrow> unit io" where
  "api_request c w =
     (case w_faults w of
        [] \<Rightarrow> (Inr (), w\<lparr>w_log := w_log w @ [c]\<rparr>)
      | f # fs \<Rightarrow>
          (if f then Inl RemoteCallFailure else Inr (),
           w\<lparr>w_faults := fs, w_log := w_log w @ [c]\<rparr>))"

definition api_getLabels :: "Label list io" where
  "api_getLabels = bindE (api_request GetLabels) (\<lambda>_ w. (Inr (w_labels w), w))"

definition fresh_label_id :: "Label list \<Rightarrow> nat" where
  "fresh_label_id ls = Suc (foldr max (map label_id ls) 0)"

definition api_addLabel :: "string \<Rightarrow> Label io" where
  "api_addLabel name =
     bindE (api_request (AddLabel name)) (\<lambda>_ w.
       let l = \<lparr>label_id = fresh_label_id (w_labels w), label_name = name\<rparr>
       in (Inr l, w\<lparr>w_labels := w_labels w @ [l]\<rparr>))"

text \<open>\<^verbatim>\<open>getTask\<close> answers with the first task of that id, and fails when there is none.\<close>

definition api_getTask :: "string \<Rightarrow> Task io" where
  "api_getTask taskId =
     bindE (api_request (GetTask taskId)) (\<lambda>_ w.
       case find (\<lambda>t. task_id t = taskId) (w_tasks w) of
         None \<Rightarrow> (Inl RemoteCallFailure, w)
       | Some t \<Rightarrow> (Inr t, w))"

text \<open>
  \<^verbatim>\<open>updateTask(id, { labels })\<close> replaces the label list of the first task of that id
  with exactly the list it is given.
\<close>

fun set_labels :: "string \<Rightarrow> string list \<Rightarrow> Task list \<Rightarrow> Task list" where
  "set_labels taskId ls [] = []"
| "set_labels taskId ls (t # ts) =
     (if task_id t = taskId then t\<lparr>labels := Some ls\<rparr> # ts
      else t # set_labels taskId ls ts)"

definition api_updateTask :: "string \<Rightarrow> string list \<Rightarrow> unit io" where
  "api_updateTask taskId ls =
     bindE (api_request (UpdateTask taskId ls)) (\<lambda>_ w.
       case find (\<lambda>t. task_id t = taskId) (w_tasks w) of
         None \<Rightarrow> (Inl RemoteCallFailure, w)
       | Some _ \<Rightarrow> (Inr (), w\<lparr>w_tasks := set_labels taskId ls (w_tasks w)\<rparr>))"

text \<open>
  \<^verbatim>\<open>getTasks({ label })\<close>: the tasks that bear the label (one page holds them all).
\<close>

definition api_getTasks :: "string \<Rightarrow> Task list io" where
  "api_getTasks label =
     bindE (api_request (GetTasks label)) (\<lambda>_ w.
       (Inr (filter (\<lambda>t. label \<in> set (labels_or_empty t)) (w_tasks w)), w))"

text \<open>
  \<^verbatim>\<open>getTasksByFilter({ query })\<close>: the meaning of a query of Todoist's filter language
  is the store's own; it is the parameter \<open>matches\<close>.
\<close>

definition api_getTasksByFilter :: "(string \<Rightarrow> Task \<Rightarrow> bool) \<Rightarrow> string \<Rightarrow> Task list io" where
  "api_getTasksByFilter matches query =
     bindE (api_request (GetTasksByFilter query)) (\<lambda>_ w.
       (Inr (filter (matches query) (w_tasks w)), w))"

text \<open>
  The process environment. The client handle \<^verbatim>\<open>api\<close> is created only when
  \<^verbatim>\<open>TODOIST_TOKEN\<close> is truthy.
\<close>

record environment =
  TODOIST_TOKEN :: "string option"
  CLIENT_SECRET :: "string option"

definition api_initialized :: "environment \<Rightarrow> bool" where
  "api_initialized env = (str_or (TODOIST_TOKEN env) [] \<noteq> [])"

section \<open>The webhook service\<close>

subsection \<open>JSON values and property access\<close>

text \<open>
  \<^verbatim>\<open>JSON.parse\<close> returns any JSON value; the declared type \<^verbatim>\<open>WebhookPayload\<close> is not
  checked at run time. Numbers are kept as integers: the services read none.
  A property read gives \<open>None\<close> for \<^verbatim>\<open>undefined\<close> and throws a \<^verbatim>\<open>TypeError\<close> on
  \<^verbatim>\<open>null\<close> and \<^verbatim>\<open>undefined\<close>. It is used only with the names \<^verbatim>\<open>event_name\<close>,
  \<^verbatim>\<open>event_data\<close>, \<^verbatim>\<open>id\<close>, \<^verbatim>\<open>event_data_extra\<close> and \<^verbatim>\<open>update_intent\<close>, which no
  string, number, boolean or array has.
\<close>

datatype json =
    JNull
  | JBool bool
  | JNum int
  | JStr string
  | JArr "json list"
  | JObj "(string \<times> json) list"

fun js_prop :: "json \<Rightarrow> string \<Rightarrow> error + json option" where
  "js_prop JNull k = Inl TypeError"
| "js_prop (JObj kvs) k = Inr (map_of kvs k)"
| "js_prop (JBool b) k = Inr None"
| "js_prop (JNum n) k = Inr None"
| "js_prop (JStr s) k = Inr None"
| "js_prop (JArr xs) k = Inr None"

text \<open>\<^verbatim>\<open>v.k\<close>, where \<open>v\<close> may be \<^verbatim>\<open>undefined\<close>\<close>

definition js_get :: "json option \<Rightarrow> string \<Rightarrow> error + json option" where
  "js_get v k = (case v of None \<Rightarrow> Inl TypeError | Some x \<Rightarrow> js_prop x k)"

text \<open>\<^verbatim>\<open>v?.k\<close>\<close>

definition js_get_opt :: "json option \<Rightarrow> string \<Rightarrow> json option" where
  "js_get_opt v k =
     (case v of None \<Rightarrow> None
      | Some x \<Rightarrow> (case js_prop x k of Inl _ \<Rightarrow> None | Inr r \<Rightarrow> r))"

fun js_truthy :: "json option \<Rightarrow> bool" where
  "js_truthy None = False"
| "js_truthy (Some JNull) = False"
| "js_truthy (Some (JBool b)) = b"
| "js_truthy (Some (JNum n)) = (n \<noteq> 0)"
| "js_truthy (Some (JStr s)) = (s \<noteq> [])"
| "js_truthy (Some (JArr xs)) = True"
| "js_truthy (Some (JObj kvs)) = True"

text \<open>
  A template literal converts each value it embeds to a string. For the values
  \<^verbatim>\<open>JSON.parse\<close> returns, the conversion throws a \<^verbatim>\<open>TypeError\<close> exactly on an object with
  an own \<^verbatim>\<open>toString\<close> key (its value is never callable, and \<^verbatim>\<open>valueOf\<close> gives no
  primitive), and on an array that holds such a value: \<^verbatim>\<open>join\<close> converts every element
  that is not \<^verbatim>\<open>null\<close>. Every other value, \<^verbatim>\<open>undefined\<close> included, has a text. Only whether
  the conversion returns matters here: the text is logged and nothing else.
\<close>

fun toString_returns :: "json \<Rightarrow> bool" where
  "toString_returns JNull = True"
| "toString_returns (JBool b) = True"
| "toString_returns (JNum n) = True"
| "toString_returns (JStr s) = True"
| "toString_returns (JArr xs) = list_all toString_returns xs"
| "toString_returns (JObj kvs) = (map_of kvs ''toString'' = None)"

definition js_ToString :: "json option \<Rightarrow> error + unit" where
  "js_ToString v =
     (case v of
        None \<Rightarrow> Inr ()
      | Some x \<Rightarrow> if toString_returns x then Inr () else Inl TypeError)"

definition liftE :: "error + 'a \<Rightarrow> 'a io" where
  "liftE r w = (r, w)"

text \<open>
  The client checks that a task id is a string before it sends a request
  (\<^verbatim>\<open>getTask(id: string)\<close>).
\<close>

definition as_task_id :: "json option \<Rightarrow> string io" where
  "as_task_id v = (case v of Some (JStr s) \<Rightarrow> ret s | _ \<Rightarrow> throwE TypeError)"

subsection \<open>\<^verbatim>\<open>ensureLabelsExist\<close>\<close>

definition ensureLabelsExist :: "environment \<Rightarrow> (Label \<times> Label) io" where
  "ensureLabelsExist env =
     (if \<not> api_initialized env then throwE ApiNotInitialized
      else
        bindE api_getLabels (\<lambda>labels.
          let recentlyCreatedLabel = find (\<lambda>label. label_name label = RECENTLY_CREATED_LABEL) labels;
              recentlyUpdatedLabel = find (\<lambda>label. label_name label = RECENTLY_UPDATED_LABEL) labels
          in
          bindE (case recentlyCreatedLabel of
                   None \<Rightarrow> api_addLabel RECENTLY_CREATED_LABEL
                 | Some l \<Rightarrow> ret l) (\<lambda>createdLabel.
          bindE (case recentlyUpdatedLabel of
                   None \<Rightarrow> api_addLabel RECENTLY_UPDATED_LABEL
                 | Some l \<Rightarrow> ret l) (\<lambda>updatedLabel.
          ret (createdLabel, updatedLabel)))))"

subsection \<open>\<^verbatim>\<open>addRecentlyCreatedLabel\<close> and \<^verbatim>\<open>addRecentlyUpdatedLabel\<close>\<close>

text \<open>
  The guard on \<^verbatim>\<open>api\<close> stands before the \<^verbatim>\<open>try\<close>; everything else is inside it. The
  \<^verbatim>\<open>catch\<close> only logs, and its message embeds \<^verbatim>\<open>taskId\<close>. (The messages inside the
  \<^verbatim>\<open>try\<close> embed it only after \<^verbatim>\<open>getTask\<close> has accepted it as a string.)
\<close>

definition addRecentlyCreatedLabel :: "environment \<Rightarrow> json option \<Rightarrow> unit io" where
  "addRecentlyCreatedLabel env taskId =
     (if \<not> api_initialized env then throwE ApiNotInitialized
      else
        try_catch
          (bindE (ensureLabelsExist env) (\<lambda>(createdLabel, updatedLabel).
           bindE (as_task_id taskId) (\<lambda>tid.
           bindE (api_getTask tid) (\<lambda>task.
             let currentLabels = labels_or_empty task in
             if label_name createdLabel \<notin> set currentLabels
             then api_updateTask tid (currentLabels @ [label_name createdLabel])
             else ret ()))))
          (\<lambda>error. liftE (js_ToString taskId)))"

definition addRecentlyUpdatedLabel :: "environment \<Rightarrow> json option \<Rightarrow> unit io" where
  "addRecentlyUpdatedLabel env taskId =
     (if \<not> api_initialized env then throwE ApiNotInitialized
      else
        try_catch
          (bindE (ensureLabelsExist env) (\<lambda>(createdLabel, updatedLabel).
           bindE (as_task_id taskId) (\<lambda>tid.
           bindE (api_getTask tid) (\<lambda>task.
             let currentLabels = labels_or_empty task in
             if label_name updatedLabel \<notin> set currentLabels
             then api_updateTask tid (currentLabels @ [label_name updatedLabel])
             else ret ()))))
          (\<lambda>error. liftE (js_ToString taskId)))"

subsection \<open>\<^verbatim>\<open>handleWebhook\<close>\<close>

text \<open>\<^verbatim>\<open>payload.event_data_extra?.update_intent\<close>\<close>

definition update_intent_of :: "json \<Rightarrow> json option" where
  "update_intent_of payload =
     (case js_prop payload ''event_data_extra'' of
        Inl _ \<Rightarrow> None
      | Inr extra \<Rightarrow>
          (case extra of None \<Rightarrow> None | Some JNull \<Rightarrow> None | Some x \<Rightarrow> js_get_opt (Some x) ''update_intent''))"

text \<open>\<^verbatim>\<open>!updateIntent || updateIntent === "item_updated"\<close>\<close>

definition qualifying_intent :: "json option \<Rightarrow> bool" where
  "qualifying_intent updateIntent =
     (\<not> js_truthy updateIntent \<or> updateIntent = Some (JStr ''item_updated''))"

text \<open>
  The first statement logs a template literal that embeds \<^verbatim>\<open>payload.event_name\<close> and
  \<^verbatim>\<open>payload.event_data.id\<close>, each read and converted in turn: it throws when the payload
  is \<^verbatim>\<open>null\<close>, when it has no \<^verbatim>\<open>event_data\<close>, and when one of the two values has no
  text. Then the \<^verbatim>\<open>switch\<close>; its \<^verbatim>\<open>default\<close> logs the event name once more.
\<close>

definition handleWebhook :: "environment \<Rightarrow> json \<Rightarrow> unit io" where
  "handleWebhook env payload =
     bindE (liftE (js_prop payload ''event_name'')) (\<lambda>event_name.
     bindE (liftE (js_ToString event_name)) (\<lambda>_.
     bindE (liftE (js_prop payload ''event_data'')) (\<lambda>event_data.
     bindE (liftE (js_get event_data ''id'')) (\<lambda>taskId.
     bindE (liftE (js_ToString taskId)) (\<lambda>_.
       if event_name = Some (JStr ''item:added'') then addRecentlyCreatedLabel env taskId
       else if event_name = Some (JStr ''item:updated'') then
         (let updateIntent = update_intent_of payload in
          if qualifying_intent updateIntent then addRecentlyUpdatedLabel env taskId
          else ret ())
       else liftE (js_ToString event_name))))))"

subsection \<open>\<^verbatim>\<open>verifyWebhookSignature\<close> and \<^verbatim>\<open>handler\<close>\<close>





section \<open>The sweeps\<close>

subsection \<open>What both sweeps share\<close>

text \<open>
  A JavaScript \<^verbatim>\<open>Map\<close> keeps its keys in insertion order; \<^verbatim>\<open>set\<close> on a key it holds
  replaces the value in place. \<^verbatim>\<open>tasks.forEach(task => map.set(task.id, task))\<close> is
  \<open>Map_set_each\<close>, and \<^verbatim>\<open>map.values()\<close> is \<open>Map_values\<close>.
\<close>

fun Map_set :: "string \<Rightarrow> Task \<Rightarrow> (string \<times> Task) list \<Rightarrow> (string \<times> Task) list" where
  "Map_set k v [] = [(k, v)]"
| "Map_set k v ((k', v') # m) = (if k' = k then (k, v) # m else (k', v') # Map_set k v m)"

definition Map_set_each :: "Task list \<Rightarrow> (string \<times> Task) list \<Rightarrow> (string \<times> Task) list" where
  "Map_set_each tasks m = foldl (\<lambda>m task. Map_set (task_id task) task m) m tasks"

definition Map_values :: "(string \<times> Task) list \<Rightarrow> Task list" where
  "Map_values m = map snd m"

datatype outcome = Returned | Exited nat | Threw error

subsection \<open>The cleanup sweep (the maintainer's \<^verbatim>\<open>main\<close>)\<close>

text \<open>
  \<^verbatim>\<open>label && task.labels?.includes(label.name) || false\<close>, with \<open>label\<close> the result
  of \<^verbatim>\<open>labels.find\<close>.
\<close>

definition currentlyHasLabel :: "Label option \<Rightarrow> Task \<Rightarrow> bool" where
  "currentlyHasLabel label task =
     (case label of None \<Rightarrow> False
      | Some l \<Rightarrow> (case labels task of None \<Rightarrow> False | Some ls \<Rightarrow> label_name l \<in> set ls))"

text \<open>The first loop: does the task go to \<^verbatim>\<open>tasksToUpdate\<close>?\<close>

definition shouldRemoveLabels ::
  "(string \<Rightarrow> int option) \<Rightarrow> date \<Rightarrow> Label option \<Rightarrow> Label option \<Rightarrow> Task \<Rightarrow> bool" where
  "shouldRemoveLabels parse threshold recentlyCreatedLabel recentlyUpdatedLabel task =
     ((currentlyHasLabel recentlyCreatedLabel task \<and> \<not> isRecentlyCreated parse threshold task)
      \<or> (currentlyHasLabel recentlyUpdatedLabel task \<and> \<not> isRecentlyUpdated parse threshold task))"

text \<open>
  One label of the second loop: when the label exists, the list holds its name and
  the task is no longer recent, the first occurrence goes and \<^verbatim>\<open>labelsChanged\<close> is set.
\<close>

definition remove_stale :: "Label option \<Rightarrow> bool \<Rightarrow> string list \<times> bool \<Rightarrow> string list \<times> bool" where
  "remove_stale label isRecent st =
     (case st of (newLabels, labelsChanged) \<Rightarrow>
        (case label of
           None \<Rightarrow> (newLabels, labelsChanged)
         | Some l \<Rightarrow>
             if label_name l \<in> set newLabels \<and> \<not> isRecent
             then (remove1 (label_name l) newLabels, True)
             else (newLabels, labelsChanged)))"

definition cleanup_newLabels ::
  "(string \<Rightarrow> int option) \<Rightarrow> date \<Rightarrow> Label option \<Rightarrow> Label option \<Rightarrow> Task \<Rightarrow> string list \<times> bool" where
  "cleanup_newLabels parse threshold recentlyCreatedLabel recentlyUpdatedLabel task =
     remove_stale recentlyUpdatedLabel (isRecentlyUpdated parse threshold task)
       (remove_stale recentlyCreatedLabel (isRecentlyCreated parse threshold task)
          (labels_or_empty task, False))"

text \<open>
  The second loop. A failed write is caught and logged inside the loop body, and the
  loop goes on; the result is \<^verbatim>\<open>updatedCount\<close>. The pause of 50 ms between two tasks is left
  out.
\<close>

fun cleanup_loop ::
  "(string \<Rightarrow> int option) \<Rightarrow> date \<Rightarrow> Label option \<Rightarrow> Label option \<Rightarrow> Task list \<Rightarrow> nat
     \<Rightarrow> world \<Rightarrow> nat \<times> world" where
  "cleanup_loop parse threshold rc ru [] updatedCount w = (updatedCount, w)"
| "cleanup_loop parse threshold rc ru (task # rest) updatedCount w =
     (case cleanup_newLabels parse threshold rc ru task of
        (newLabels, labelsChanged) \<Rightarrow>
          if labelsChanged then
            (case api_updateTask (task_id task) newLabels w of
               (Inl e, w') \<Rightarrow> cleanup_loop parse threshold rc ru rest updatedCount w'
             | (Inr u, w') \<Rightarrow> cleanup_loop parse threshold rc ru rest (Suc updatedCount) w')
          else cleanup_loop parse threshold rc ru rest updatedCount w)"

text \<open>
  The body of the outer \<^verbatim>\<open>try\<close>. The early \<^verbatim>\<open>return\<close> when neither label exists comes
  before any other request.
\<close>

definition cleanup_body :: "(string \<Rightarrow> int option) \<Rightarrow> int \<Rightarrow> unit io" where
  "cleanup_body parse now =
     bindE api_getLabels (\<lambda>labels.
       let recentlyCreatedLabel = find (\<lambda>label. label_name label = RECENTLY_CREATED_LABEL) labels;
           recentlyUpdatedLabel = find (\<lambda>label. label_name label = RECENTLY_UPDATED_LABEL) labels
       in
       if recentlyCreatedLabel = None \<and> recentlyUpdatedLabel = None then ret ()
       else
         bindE (case recentlyCreatedLabel of
                  None \<Rightarrow> ret []
                | Some l \<Rightarrow>
                    bindE (api_getTasks RECENTLY_CREATED_LABEL) (\<lambda>currentlyCreatedTasks.
                      ret (Map_set_each currentlyCreatedTasks []))) (\<lambda>tasksToCheck.
         bindE (case recentlyUpdatedLabel of
                  None \<Rightarrow> ret tasksToCheck
                | Some l \<Rightarrow>
                    bindE (api_getTasks RECENTLY_UPDATED_LABEL) (\<lambda>currentlyUpdatedTasks.
                      ret (Map_set_each currentlyUpdatedTasks tasksToCheck))) (\<lambda>tasksToCheck.
           let tasksToUpdate =
                 filter (shouldRemoveLabels parse (recentThreshold now)
                           recentlyCreatedLabel recentlyUpdatedLabel) (Map_values tasksToCheck)
           in (\<lambda>w. case cleanup_loop parse (recentThreshold now)
                            recentlyCreatedLabel recentlyUpdatedLabel tasksToUpdate 0 w of
                      (updatedCount, w') \<Rightarrow> (Inr (), w')))))"

text \<open>
  \<^verbatim>\<open>main\<close> throws when the client is missing; any error of the body reaches the outer
  \<^verbatim>\<open>catch\<close>, which ends the process with \<^verbatim>\<open>Deno.exit(1)\<close>.
\<close>

definition main_cleanup :: "(string \<Rightarrow> int option) \<Rightarrow> environment \<Rightarrow> int \<Rightarrow> world \<Rightarrow> outcome \<times> world" where
  "main_cleanup parse env now w =
     (if \<not> api_initialized env then (Threw ApiNotInitialized, w)
      else (case cleanup_body parse now w of
              (Inl e, w') \<Rightarrow> (Exited 1, w')
            | (Inr u, w') \<Rightarrow> (Returned, w')))"

subsection \<open>The combined sweep (the older labeler's \<^verbatim>\<open>main\<close>)\<close>

record TaskUpdateInfo =
  info_task :: Task
  shouldHaveCreatedLabel :: bool
  shouldHaveUpdatedLabel :: bool
  currentlyHasCreatedLabel :: bool
  currentlyHasUpdatedLabel :: bool

text \<open>
  The filter of \<^verbatim>\<open>recentModifiedTasks\<close>: \<^verbatim>\<open>if (!task.updatedAt) return false\<close>, then
  the test on \<^verbatim>\<open>new Date(task.updatedAt)\<close>.
\<close>

definition recentlyModified :: "(string \<Rightarrow> int option) \<Rightarrow> date \<Rightarrow> Task \<Rightarrow> bool" where
  "recentlyModified parse threshold task =
     (case updatedAt task of
        None \<Rightarrow> False
      | Some u \<Rightarrow>
          if u = [] then False
          else date_ge (new_Date parse u) threshold
               \<and> getTime_differs (new_Date parse u) (createdDate parse task))"

text \<open>
  The first loop: the recency tests against the labels the task holds; the task is
  tracked only when one of the two differs.
\<close>

definition update_info ::
  "(string \<Rightarrow> int option) \<Rightarrow> date \<Rightarrow> Label \<Rightarrow> Label \<Rightarrow> Task \<Rightarrow> TaskUpdateInfo option" where
  "update_info parse threshold recentlyCreatedLabel recentlyUpdatedLabel task =
     (let isCreated = isRecentlyCreated parse threshold task;
          isUpdated = isRecentlyUpdated parse threshold task;
          hasCreated = currentlyHasLabel (Some recentlyCreatedLabel) task;
          hasUpdated = currentlyHasLabel (Some recentlyUpdatedLabel) task
      in if isCreated \<noteq> hasCreated \<or> isUpdated \<noteq> hasUpdated
         then Some \<lparr>info_task = task,
                    shouldHaveCreatedLabel = isCreated,
                    shouldHaveUpdatedLabel = isUpdated,
                    currentlyHasCreatedLabel = hasCreated,
                    currentlyHasUpdatedLabel = hasUpdated\<rparr>
         else None)"

text \<open>The new label list of the second loop, before the comparison.\<close>

definition labeling_newLabels :: "Label \<Rightarrow> Label \<Rightarrow> TaskUpdateInfo \<Rightarrow> string list" where
  "labeling_newLabels recentlyCreatedLabel recentlyUpdatedLabel info =
     handle_label
       (handle_label (labels_or_empty (info_task info))
          (label_name recentlyCreatedLabel) (shouldHaveCreatedLabel info))
       (label_name recentlyUpdatedLabel) (shouldHaveUpdatedLabel info)"

text \<open>
  \<^verbatim>\<open>JSON.stringify(newLabels.sort()) !== JSON.stringify((task.labels || []).sort())\<close>:
  \<^verbatim>\<open>sort\<close> orders the array it is called on in place (by UTF-16 code units, here the
  order of \<^typ>\<open>string\<close>) and returns it. The list handed to \<^verbatim>\<open>updateTask\<close> on the next
  line is therefore the sorted one; \<open>labeling_write\<close> is that list when the comparison
  asks for a write.
\<close>

definition labeling_write :: "Label \<Rightarrow> Label \<Rightarrow> TaskUpdateInfo \<Rightarrow> string list option" where
  "labeling_write recentlyCreatedLabel recentlyUpdatedLabel info =
     (let newLabels = sort (labeling_newLabels recentlyCreatedLabel recentlyUpdatedLabel info)
      in if newLabels \<noteq> sort (labels_or_empty (info_task info)) then Some newLabels else None)"

fun labeling_loop :: "Label \<Rightarrow> Label \<Rightarrow> TaskUpdateInfo list \<Rightarrow> nat \<Rightarrow> world \<Rightarrow> nat \<times> world" where
  "labeling_loop rc ru [] updatedCount w = (updatedCount, w)"
| "labeling_loop rc ru (info # rest) updatedCount w =
     (case labeling_write rc ru info of
        None \<Rightarrow> labeling_loop rc ru rest updatedCount w
      | Some newLabels \<Rightarrow>
          (case api_updateTask (task_id (info_task info)) newLabels w of
             (Inl e, w') \<Rightarrow> labeling_loop rc ru rest updatedCount w'
           | (Inr u, w') \<Rightarrow> labeling_loop rc ru rest (Suc updatedCount) w'))"

definition labeling_body ::
  "(string \<Rightarrow> int option) \<Rightarrow> (string \<Rightarrow> Task \<Rightarrow> bool) \<Rightarrow> int \<Rightarrow> unit io" where
  "labeling_body parse matches now =
     bindE api_getLabels (\<lambda>labels.
     bindE (case find (\<lambda>label. label_name label = RECENTLY_CREATED_LABEL) labels of
              None \<Rightarrow> api_addLabel RECENTLY_CREATED_LABEL
            | Some l \<Rightarrow> ret l) (\<lambda>recentlyCreatedLabel.
     bindE (case find (\<lambda>label. label_name label = RECENTLY_UPDATED_LABEL) labels of
              None \<Rightarrow> api_addLabel RECENTLY_UPDATED_LABEL
            | Some l \<Rightarrow> ret l) (\<lambda>recentlyUpdatedLabel.
     bindE (api_getTasks RECENTLY_CREATED_LABEL) (\<lambda>currentlyCreatedTasks.
     bindE (api_getTasks RECENTLY_UPDATED_LABEL) (\<lambda>currentlyUpdatedTasks.
     bindE (api_getTasksByFilter matches ''created after: -7 days'') (\<lambda>recentTasks.
       let threshold = recentThreshold now;
           recentCreatedTasks = filter (isRecentlyCreated parse threshold) recentTasks;
           recentModifiedTasks = filter (recentlyModified parse threshold) recentTasks;
           tasksToProcess =
             Map_set_each recentModifiedTasks
               (Map_set_each recentCreatedTasks
                  (Map_set_each currentlyUpdatedTasks
                     (Map_set_each currentlyCreatedTasks [])));
           tasksToUpdate =
             List.map_filter (update_info parse threshold recentlyCreatedLabel recentlyUpdatedLabel)
               (Map_values tasksToProcess)
       in (\<lambda>w. case labeling_loop recentlyCreatedLabel recentlyUpdatedLabel tasksToUpdate 0 w of
                  (updatedCount, w') \<Rightarrow> (Inr (), w'))))))))"

definition main_labeling ::
  "(string \<Rightarrow> int option) \<Rightarrow> (string \<Rightarrow> Task \<Rightarrow> bool) \<Rightarrow> environment \<Rightarrow> int \<Rightarrow> world
     \<Rightarrow> outcome \<times> world" where
  "main_labeling parse matches env now w =
     (if \<not> api_initialized env then (Threw ApiNotInitialized, w)
      else (case labeling_body parse matches now w of
              (Inl e, w') \<Rightarrow> (Exited 1, w')
            | (Inr u, w') \<Rightarrow> (Returned, w')))"

section \<open>Properties stated about the services\<close>

text \<open>
  \<open>keeps_labels before after\<close>: the same task, and every label of \<open>before\<close> is a label of
  \<open>after\<close>. \<open>write_keeps ts c\<close>: if the request \<open>c\<close> is an \<^verbatim>\<open>updateTask\<close>, the list it
  carries holds every label that the task of that id has in \<open>ts\<close>. \<open>only_adds w w'\<close>: the
  tasks of \<open>w'\<close> are those of \<open>w\<close>, position by position, each with its labels kept; the
  log of \<open>w'\<close> extends that of \<open>w\<close>; and every request made in between keeps the labels
  of the task it writes. \<open>steps_in R m\<close>: every run of \<open>m\<close> ends in a state related by
  \<open>R\<close> to the one it started in, whether it returns or throws.
\<close>

definition keeps_labels :: "Task \<Rightarrow> Task \<Rightarrow> bool" where
  "keeps_labels before after =
     (task_id after = task_id before
      \<and> set (labels_or_empty before) \<subseteq> set (labels_or_empty after))"

definition write_keeps :: "Task list \<Rightarrow> api_call \<Rightarrow> bool" where
  "write_keeps ts c =
     (case c of
        UpdateTask tid ls \<Rightarrow>
          (case find (\<lambda>t. task_id t = tid) ts of
             None \<Rightarrow> False
           | Some t \<Rightarrow> set (labels_or_empty t) \<subseteq> set ls)
      | _ \<Rightarrow> True)"

definition only_adds :: "world \<Rightarrow> world \<Rightarrow> bool" where
  "only_adds w w' =
     (list_all2 keeps_labels (w_tasks w) (w_tasks w')
      \<and> take (length (w_log w)) (w_log w') = w_log w
      \<and> list_all (write_keeps (w_tasks w)) (drop (length (w_log w)) (w_log w')))"

definition steps_in :: "(world \<Rightarrow> world \<Rightarrow> bool) \<Rightarrow> 'a io \<Rightarrow> bool" where
  "steps_in R m = (\<forall>w. R w (snd (m w)))"

text \<open>
  What one run of \<^verbatim>\<open>ensureLabelsExist\<close> comes to when no request fails, as functions of
  the label collection it finds: the two labels it returns, the collection it leaves, and
  the requests it makes.
\<close>

definition resolved_created :: "Label list \<Rightarrow> Label" where
  "resolved_created ls =
     (case find (\<lambda>label. label_name label = RECENTLY_CREATED_LABEL) ls of
        None \<Rightarrow> \<lparr>label_id = fresh_label_id ls, label_name = RECENTLY_CREATED_LABEL\<rparr>
      | Some l \<Rightarrow> l)"

definition labels_after_created :: "Label list \<Rightarrow> Label list" where
  "labels_after_created ls =
     (case find (\<lambda>label. label_name label = RECENTLY_CREATED_LABEL) ls of
        None \<Rightarrow> ls @ [resolved_created ls]
      | Some l \<Rightarrow> ls)"

definition resolved_updated :: "Label list \<Rightarrow> Label" where
  "resolved_updated ls =
     (case find (\<lambda>label. label_name label = RECENTLY_UPDATED_LABEL) ls of
        None \<Rightarrow> \<lparr>label_id = fresh_label_id (labels_after_created ls),
                 label_name = RECENTLY_UPDATED_LABEL\<rparr>
      | Some l \<Rightarrow> l)"

definition labels_after_resolve :: "Label list \<Rightarrow> Label list" where
  "labels_after_resolve ls =
     (case find (\<lambda>label. label_name label = RECENTLY_UPDATED_LABEL) ls of
        None \<Rightarrow> labels_after_created ls @ [resolved_updated ls]
      | Some l \<Rightarrow> labels_after_created ls)"

definition resolve_requests :: "Label list \<Rightarrow> api_call list" where
  "resolve_requests ls =
     GetLabels
     # (if find (\<lambda>label. label_name label = RECENTLY_CREATED_LABEL) ls = None
        then [AddLabel RECENTLY_CREATED_LABEL] else [])
     @ (if find (\<lambda>label. label_name label = RECENTLY_UPDATED_LABEL) ls = None
        then [AddLabel RECENTLY_UPDATED_LABEL] else [])"

text \<open>
  \<open>non_recency\<close>: a label name other than the two recency names.
  \<open>labels_after_labeling\<close>: the label list of a task once the combined sweep has processed
  it and its write, if one was due, has succeeded: the list written, or the list the task
  had when none was written.
\<close>

definition non_recency :: "string \<Rightarrow> bool" where
  "non_recency name = (name \<noteq> RECENTLY_CREATED_LABEL \<and> name \<noteq> RECENTLY_UPDATED_LABEL)"

definition labels_after_labeling ::
  "(string \<Rightarrow> int option) \<Rightarrow> date \<Rightarrow> Label \<Rightarrow> Label \<Rightarrow> Task \<Rightarrow> string list" where
  "labels_after_labeling parse threshold recentlyCreatedLabel recentlyUpdatedLabel task =
     (case update_info parse threshold recentlyCreatedLabel recentlyUpdatedLabel task of
        None \<Rightarrow> labels_or_empty task
      | Some info \<Rightarrow>
          (case labeling_write recentlyCreatedLabel recentlyUpdatedLabel info of
             None \<Rightarrow> labels_or_empty task
           | Some newLabels \<Rightarrow> newLabels))"







text \<open>
  \<open>next_request_fails\<close>: the schedule makes the coming request throw.
\<close>

definition next_request_fails :: "world \<Rightarrow> bool" where
  "next_request_fails w = (case w_faults w of [] \<Rightarrow> False | f # fs \<Rightarrow> f)"







section \<open>Sample data\<close>

text \<open>
  Concrete inputs on which the theorems below are exercised. The sample clock reads
  2024-01-02T06:00:00Z, that is \<open>1704175200000\<close> ms; \<open>sample_parse\<close> is \<^verbatim>\<open>Date.parse\<close> on the
  timestamps that occur, and rejects every other string.
\<close>

definition sample_now :: int where
  "sample_now = 1704175200000"

definition sample_parse :: "string \<Rightarrow> int option" where
  "sample_parse =
     map_of [(''2024-01-01T00:00:00Z'', 1704067200000),
             (''2024-01-01T06:00:00Z'', 1704088800000),
             (''2024-01-02T05:00:00Z'', 1704171600000),
             (''2024-01-02T06:00:00Z'', 1704175200000)]"

definition sample_env :: environment where
  "sample_env = \<lparr>TODOIST_TOKEN = Some ''token'', CLIENT_SECRET = Some ''secret''\<rparr>"

definition created_label :: Label where
  "created_label = \<lparr>label_id = 1, label_name = ''recently created''\<rparr>"

definition updated_label :: Label where
  "updated_label = \<lparr>label_id = 2, label_name = ''recently updated''\<rparr>"

text \<open>A task created 30 hours and changed one hour before the sample clock.\<close>

definition old_task_just_updated :: Task where
  "old_task_just_updated =
     \<lparr>task_id = ''t1'', content = ''write report'',
      addedAt = Some ''2024-01-01T00:00:00Z'', updatedAt = Some ''2024-01-02T05:00:00Z'',
      labels = Some [''work'', ''home'']\<rparr>"








definition failing_store :: world where
  "failing_store = \<lparr>w_labels = [], w_tasks = [], w_faults = [True], w_log = []\<rparr>"

text \<open>
  Stores, and the payload of an \<^verbatim>\<open>item:updated\<close> event for task \<^verbatim>\<open>t1\<close> with a given
  \<^verbatim>\<open>update_intent\<close>. \<open>fresh_task\<close> was created one hour before the sample clock and changed
  at it.
\<close>

definition fresh_task :: Task where
  "fresh_task =
     \<lparr>task_id = ''t1'', content = ''write report'',
      addedAt = Some ''2024-01-02T05:00:00Z'', updatedAt = Some ''2024-01-02T06:00:00Z'',
      labels = Some [''work'']\<rparr>"

definition labelled_store :: world where
  "labelled_store =
     \<lparr>w_labels = [created_label, updated_label], w_tasks = [fresh_task],
      w_faults = [], w_log = []\<rparr>"

definition empty_store :: world where
  "empty_store = \<lparr>w_labels = [], w_tasks = [], w_faults = [], w_log = []\<rparr>"

definition item_updated_payload :: "json \<Rightarrow> json" where
  "item_updated_payload intent =
     JObj [(''event_name'', JStr ''item:updated''),
           (''event_data'', JObj [(''id'', JStr ''t1'')]),
           (''event_data_extra'', JObj [(''update_intent'', intent)])]"




text \<open>
  \<open>stale_created_task\<close> still bears \<^verbatim>\<open>"recently created"\<close> 30 hours after its creation and
  was changed at the sample clock. \<open>unsorted_task\<close> is one hour old, not yet labelled, and
  its own labels are not in alphabetical order. \<open>every_task\<close> lets the filter query match
  every task.
\<close>

definition stale_created_task :: Task where
  "stale_created_task =
     \<lparr>task_id = ''t1'', content = ''write report'',
      addedAt = Some ''2024-01-01T00:00:00Z'', updatedAt = Some ''2024-01-02T06:00:00Z'',
      labels = Some [''recently created'']\<rparr>"


definition unsorted_task :: Task where
  "unsorted_task =
     \<lparr>task_id = ''t4'', content = ''buy milk'',
      addedAt = Some ''2024-01-02T05:00:00Z'', updatedAt = None,
      labels = Some [''work'', ''home'']\<rparr>"

definition unsorted_store :: world where
  "unsorted_store =
     \<lparr>w_labels = [created_label, updated_label], w_tasks = [unsorted_task],
      w_faults = [], w_log = []\<rparr>"

definition every_task :: "string \<Rightarrow> Task \<Rightarrow> bool" where
  "every_task query task = True"

text \<open>
  A store that knows neither recency label: one other label, one task, and a schedule in
  which the first request succeeds.
\<close>

definition unlabelled_store :: world where
  "unlabelled_store =
     \<lparr>w_labels = [\<lparr>label_id = 7, label_name = ''work''\<rparr>], w_tasks = [unsorted_task],
      w_faults = [False, True], w_log = []\<rparr>"

section \<open>The recency tests\<close>

lemma new_Date_Some_iff: "new_Date parse s = Some c \<longleftrightarrow> s \<noteq> [] \<and> parse s = Some c"
  by (simp add: new_Date_def)

text \<open>
  C2. For a task whose timestamps parse, at every reference instant \<open>now\<close>:
  \<open>isRecentlyCreated\<close> holds iff \<open>now - creationInstant \<le> 24 h\<close>, and \<open>isRecentlyUpdated\<close>
  holds iff the modification timestamp is present, \<open>now - modificationInstant \<le> 24 h\<close> and
  the modification instant differs from the creation instant. In particular it is false
  whenever the two instants are equal.
\<close>

theorem recency_rules:
  assumes "addedAt task = Some a" and "new_Date parse a = Some c"
    and "updatedAt task = None \<or> (\<exists>u m. updatedAt task = Some u \<and> new_Date parse u = Some m)"
  shows "(isRecentlyCreated parse (recentThreshold now) task \<longleftrightarrow> now - c \<le> 24 * 60 * 60 * 1000)
       \<and> (isRecentlyUpdated parse (recentThreshold now) task \<longleftrightarrow>
            (\<exists>u m. updatedAt task = Some u \<and> new_Date parse u = Some m
                 \<and> now - m \<le> 24 * 60 * 60 * 1000 \<and> m \<noteq> c))"
proof -
  from assms(1,2) have a: "a \<noteq> []" "parse a = Some c"
    by (simp_all add: new_Date_Some_iff)
  then have cd: "createdDate parse task = Some c"
    using assms(1) by (simp add: createdDate_def str_or_def new_Date_def)
  have created:
    "isRecentlyCreated parse (recentThreshold now) task \<longleftrightarrow> now - c \<le> 24 * 60 * 60 * 1000"
    by (auto simp add: isRecentlyCreated_def cd date_ge_def recentThreshold_def
        RECENT_THRESHOLD_HOURS_def)
  from assms(3) show ?thesis
  proof
    assume n: "updatedAt task = None"
    then have "updatedDate parse task = Some c"
      using assms(1) a by (simp add: updatedDate_def str_or_def new_Date_def)
    then have "\<not> isRecentlyUpdated parse (recentThreshold now) task"
      by (simp add: isRecentlyUpdated_def cd getTime_differs_def)
    with created n show ?thesis by simp
  next
    assume "\<exists>u m. updatedAt task = Some u \<and> new_Date parse u = Some m"
    then obtain u m where u: "updatedAt task = Some u" "new_Date parse u = Some m"
      by blast
    then have "u \<noteq> []" by (simp add: new_Date_Some_iff)
    then have "updatedDate parse task = Some m"
      using u by (simp add: updatedDate_def str_or_def)
    then have "isRecentlyUpdated parse (recentThreshold now) task
                 \<longleftrightarrow> now - m \<le> 24 * 60 * 60 * 1000 \<and> m \<noteq> c"
      by (auto simp add: isRecentlyUpdated_def cd getTime_differs_def date_ge_def
          recentThreshold_def RECENT_THRESHOLD_HOURS_def)
    with created u show ?thesis by simp
  qed
qed

theorem recency_rules_witness:
  "addedAt old_task_just_updated = Some ''2024-01-01T00:00:00Z''
   \<and> new_Date sample_parse ''2024-01-01T00:00:00Z'' = Some 1704067200000
   \<and> updatedAt old_task_just_updated = Some ''2024-01-02T05:00:00Z''
   \<and> new_Date sample_parse ''2024-01-02T05:00:00Z'' = Some 1704171600000
   \<and> \<not> isRecentlyCreated sample_parse (recentThreshold 1704175200000) old_task_just_updated
   \<and> isRecentlyUpdated sample_parse (recentThreshold 1704175200000) old_task_just_updated"
proof -
  have h1: "addedAt old_task_just_updated = Some ''2024-01-01T00:00:00Z''"
    by (simp add: old_task_just_updated_def)
  have h2: "new_Date sample_parse ''2024-01-01T00:00:00Z'' = Some 1704067200000"
    by (simp add: new_Date_def sample_parse_def)
  have h3: "updatedAt old_task_just_updated = Some ''2024-01-02T05:00:00Z''"
    by (simp add: old_task_just_updated_def)
  have h4: "new_Date sample_parse ''2024-01-02T05:00:00Z'' = Some 1704171600000"
    by (simp add: new_Date_def sample_parse_def)
  have h5: "updatedAt old_task_just_updated = None
            \<or> (\<exists>u m. updatedAt old_task_just_updated = Some u \<and> new_Date sample_parse u = Some m)"
    using h3 h4 by blast
  show ?thesis
    using recency_rules [OF h1 h2 h5, of 1704175200000] h1 h2 h3 h4 by simp
qed

section \<open>The label edit\<close>

lemma remove1_last_occurrence: "count_list ls x \<le> 1 \<Longrightarrow> x \<notin> set (remove1 x ls)"
  by (induction ls) (auto simp: count_list_0_iff split: if_splits)

text \<open>
  C5, as stated, fails: with two occurrences of the name and \<open>should = False\<close>, each
  application deletes one occurrence, so the second application changes the list again.
\<close>

theorem handle_label_twice_differs:
  "handle_label (handle_label [''recently created'', ''recently created''] ''recently created'' False)
       ''recently created'' False = []
   \<and> handle_label [''recently created'', ''recently created''] ''recently created'' False
       = [''recently created'']"
  by (simp add: handle_label_def)

text \<open>
  C5, amended. Applying the edit \<open>(name, should)\<close> twice gives the same list as applying it
  once whenever the label is to be present, or the list holds the name at most once.
\<close>

theorem handle_label_idempotent:
  "should \<or> count_list ls name \<le> 1 \<Longrightarrow>
     handle_label (handle_label ls name should) name should = handle_label ls name should"
  by (auto simp: handle_label_def remove1_last_occurrence)

theorem handle_label_idempotent_witness:
  "count_list [''recently created'', ''work''] ''recently created'' \<le> 1
   \<and> handle_label (handle_label [''recently created'', ''work''] ''recently created'' False)
        ''recently created'' False = [''work'']"
  using handle_label_idempotent [of False "[''recently created'', ''work'']" "''recently created''"]
  by (simp add: handle_label_def)

section \<open>The webhook service never removes a label\<close>

lemma keeps_labels_refl: "keeps_labels t t"
  by (simp add: keeps_labels_def)

lemma keeps_labels_trans: "keeps_labels a b \<Longrightarrow> keeps_labels b c \<Longrightarrow> keeps_labels a c"
  by (auto simp: keeps_labels_def)

lemma labels_or_empty_update [simp]: "labels_or_empty (t\<lparr>labels := Some ls\<rparr>) = ls"
  by (simp add: labels_or_empty_def)

lemma set_labels_keeps:
  "find (\<lambda>t. task_id t = tid) ts = Some task \<Longrightarrow>
   list_all2 keeps_labels ts (set_labels tid (labels_or_empty task @ extra) ts)"
proof (induction ts)
  case Nil
  then show ?case by simp
next
  case (Cons t ts)
  show ?case
  proof (cases "task_id t = tid")
    case True
    with Cons.prems have "t = task" by simp
    with True show ?thesis
      by (simp add: keeps_labels_def list_all2_refl keeps_labels_refl)
  next
    case False
    with Cons show ?thesis by (simp add: keeps_labels_refl)
  qed
qed

lemma only_adds_iff:
  "only_adds w w' \<longleftrightarrow>
     list_all2 keeps_labels (w_tasks w) (w_tasks w')
     \<and> (\<exists>calls. w_log w' = w_log w @ calls \<and> list_all (write_keeps (w_tasks w)) calls)"
proof
  assume a: "only_adds w w'"
  then have "w_log w' = w_log w @ drop (length (w_log w)) (w_log w')"
    by (metis only_adds_def append_take_drop_id)
  with a show "list_all2 keeps_labels (w_tasks w) (w_tasks w')
     \<and> (\<exists>calls. w_log w' = w_log w @ calls \<and> list_all (write_keeps (w_tasks w)) calls)"
    unfolding only_adds_def by blast
next
  assume "list_all2 keeps_labels (w_tasks w) (w_tasks w')
     \<and> (\<exists>calls. w_log w' = w_log w @ calls \<and> list_all (write_keeps (w_tasks w)) calls)"
  then show "only_adds w w'" by (auto simp: only_adds_def)
qed

lemma only_adds_refl: "only_adds w w"
  by (simp add: only_adds_def list_all2_refl keeps_labels_refl)

lemma find_kept:
  "list_all2 keeps_labels ts ts' \<Longrightarrow> find (\<lambda>t. task_id t = tid) ts' = Some t' \<Longrightarrow>
   \<exists>t. find (\<lambda>t. task_id t = tid) ts = Some t \<and> keeps_labels t t'"
proof (induction ts ts' rule: list_all2_induct)
  case Nil
  then show ?case by simp
next
  case (Cons x xs y ys)
  then show ?case by (auto simp: keeps_labels_def split: if_splits)
qed

lemma write_keeps_earlier:
  assumes "list_all2 keeps_labels ts ts'" and "write_keeps ts' c"
  shows "write_keeps ts c"
proof (cases c)
  case (UpdateTask tid ls)
  with assms(2) obtain t' where t': "find (\<lambda>t. task_id t = tid) ts' = Some t'"
    and s: "set (labels_or_empty t') \<subseteq> set ls"
    by (auto simp: write_keeps_def split: option.splits)
  from find_kept [OF assms(1) t'] obtain t where "find (\<lambda>t. task_id t = tid) ts = Some t"
    and "keeps_labels t t'" by blast
  with s UpdateTask show ?thesis by (auto simp: write_keeps_def keeps_labels_def)
qed (simp_all add: write_keeps_def)

lemma only_adds_trans:
  assumes "only_adds a b" and "only_adds b c"
  shows "only_adds a c"
proof -
  from assms(1) obtain c1 where k1: "list_all2 keeps_labels (w_tasks a) (w_tasks b)"
    and l1: "w_log b = w_log a @ c1" and a1: "list_all (write_keeps (w_tasks a)) c1"
    unfolding only_adds_iff by blast
  from assms(2) obtain c2 where k2: "list_all2 keeps_labels (w_tasks b) (w_tasks c)"
    and l2: "w_log c = w_log b @ c2" and a2: "list_all (write_keeps (w_tasks b)) c2"
    unfolding only_adds_iff by blast
  have k: "list_all2 keeps_labels (w_tasks a) (w_tasks c)"
    using list_all2_trans [of keeps_labels keeps_labels keeps_labels] keeps_labels_trans k1 k2
    by blast
  have "list_all (write_keeps (w_tasks a)) c2"
    using a2 write_keeps_earlier [OF k1] by (simp add: list_all_iff)
  with a1 have "list_all (write_keeps (w_tasks a)) (c1 @ c2)" by simp
  moreover have "w_log c = w_log a @ (c1 @ c2)" using l1 l2 by simp
  ultimately show ?thesis using k unfolding only_adds_iff by blast
qed

lemma only_adds_read:
  assumes "w_tasks w' = w_tasks w" and "w_log w' = w_log w @ [c]" and "write_keeps (w_tasks w) c"
  shows "only_adds w w'"
  unfolding only_adds_iff using assms
  by (auto simp: list_all2_refl keeps_labels_refl)

lemma adds_ret: "steps_in only_adds (ret x)"
  by (simp add: steps_in_def ret_def only_adds_refl)

lemma adds_throwE: "steps_in only_adds (throwE e)"
  by (simp add: steps_in_def throwE_def only_adds_refl)

lemma adds_liftE: "steps_in only_adds (liftE r)"
  by (simp add: steps_in_def liftE_def only_adds_refl)

lemma adds_bindE:
  assumes "steps_in only_adds m" and "\<And>x. steps_in only_adds (f x)"
  shows "steps_in only_adds (bindE m f)"
  unfolding steps_in_def
proof
  fix w
  obtain r w1 where m: "m w = (r, w1)" by (cases "m w")
  with assms(1) have k1: "only_adds w w1"
    by (auto simp: steps_in_def dest: spec [of _ w])
  show "only_adds w (snd (bindE m f w))"
  proof (cases r)
    case (Inl e)
    with m k1 show ?thesis by (simp add: bindE_def)
  next
    case (Inr x)
    from assms(2) [of x] have "only_adds w1 (snd (f x w1))"
      by (simp add: steps_in_def)
    with k1 m Inr show ?thesis
      by (auto simp: bindE_def intro: only_adds_trans)
  qed
qed

lemma adds_try_catch:
  assumes "steps_in only_adds m" and "\<And>e. steps_in only_adds (h e)"
  shows "steps_in only_adds (try_catch m h)"
  unfolding steps_in_def
proof
  fix w
  obtain r w1 where m: "m w = (r, w1)" by (cases "m w")
  with assms(1) have k1: "only_adds w w1"
    by (auto simp: steps_in_def dest: spec [of _ w])
  show "only_adds w (snd (try_catch m h w))"
  proof (cases r)
    case (Inr x)
    with m k1 show ?thesis by (simp add: try_catch_def)
  next
    case (Inl e)
    from assms(2) [of e] have "only_adds w1 (snd (h e w1))"
      by (simp add: steps_in_def)
    with k1 m Inl show ?thesis
      by (auto simp: try_catch_def intro: only_adds_trans)
  qed
qed

lemma api_request_effect:
  "w_tasks (snd (api_request c w)) = w_tasks w
   \<and> w_labels (snd (api_request c w)) = w_labels w
   \<and> w_log (snd (api_request c w)) = w_log w @ [c]"
  by (simp add: api_request_def split: list.splits)

lemma api_getLabels_effect:
  "w_tasks (snd (api_getLabels w)) = w_tasks w
   \<and> w_log (snd (api_getLabels w)) = w_log w @ [GetLabels]"
  using api_request_effect [of GetLabels w]
  by (cases "api_request GetLabels w") (auto simp: api_getLabels_def bindE_def split: sum.splits)

lemma api_addLabel_effect:
  "w_tasks (snd (api_addLabel name w)) = w_tasks w
   \<and> w_log (snd (api_addLabel name w)) = w_log w @ [AddLabel name]"
  using api_request_effect [of "AddLabel name" w]
  by (cases "api_request (AddLabel name) w")
     (auto simp: api_addLabel_def bindE_def Let_def split: sum.splits)

lemma api_getTask_effect:
  "w_tasks (snd (api_getTask tid w)) = w_tasks w
   \<and> w_log (snd (api_getTask tid w)) = w_log w @ [GetTask tid]"
  using api_request_effect [of "GetTask tid" w]
  by (cases "api_request (GetTask tid) w")
     (auto simp: api_getTask_def bindE_def split: sum.splits option.splits)

lemma api_getTask_result:
  "api_getTask tid w = (Inr task, w') \<Longrightarrow> find (\<lambda>t. task_id t = tid) (w_tasks w) = Some task"
  using api_request_effect [of "GetTask tid" w]
  by (cases "api_request (GetTask tid) w")
     (auto simp: api_getTask_def bindE_def split: sum.splits option.splits)

lemma adds_api_getLabels: "steps_in only_adds api_getLabels"
  unfolding steps_in_def
  using api_getLabels_effect by (auto intro!: only_adds_read simp: write_keeps_def)

lemma adds_api_addLabel: "steps_in only_adds (api_addLabel name)"
  unfolding steps_in_def
  using api_addLabel_effect by (auto intro!: only_adds_read simp: write_keeps_def)

lemma adds_api_getTask: "steps_in only_adds (api_getTask tid)"
  unfolding steps_in_def
  using api_getTask_effect by (auto intro!: only_adds_read simp: write_keeps_def)

lemma adds_ensureLabelsExist: "steps_in only_adds (ensureLabelsExist env)"
  unfolding ensureLabelsExist_def Let_def
  by (auto intro!: adds_throwE adds_bindE adds_api_getLabels adds_api_addLabel adds_ret
      split: option.splits)

lemma api_updateTask_adds:
  assumes "find (\<lambda>t. task_id t = tid) (w_tasks w) = Some task"
  shows "only_adds w (snd (api_updateTask tid (labels_or_empty task @ extra) w))"
proof -
  let ?c = "UpdateTask tid (labels_or_empty task @ extra)"
  obtain r w1 where rq: "api_request ?c w = (r, w1)" by (cases "api_request ?c w")
  with api_request_effect [of ?c w]
  have same: "w_tasks w1 = w_tasks w" and lg: "w_log w1 = w_log w @ [?c]" by simp_all
  have wk: "write_keeps (w_tasks w) ?c" using assms by (simp add: write_keeps_def)
  show ?thesis
  proof (cases r)
    case (Inl e)
    with rq same lg wk show ?thesis
      by (simp add: api_updateTask_def bindE_def only_adds_read)
  next
    case (Inr u)
    have "only_adds w (w1\<lparr>w_tasks := set_labels tid (labels_or_empty task @ extra) (w_tasks w1)\<rparr>)"
      unfolding only_adds_iff using same lg wk assms by (simp add: set_labels_keeps)
    with rq same assms Inr show ?thesis
      by (simp add: api_updateTask_def bindE_def)
  qed
qed

lemma adds_add_label:
  "steps_in only_adds
     (bindE (api_getTask tid) (\<lambda>task.
        let currentLabels = labels_or_empty task in
        if name \<notin> set currentLabels
        then api_updateTask tid (currentLabels @ [name])
        else ret ()))"
  unfolding steps_in_def
proof
  fix w
  obtain r w1 where g: "api_getTask tid w = (r, w1)" by (cases "api_getTask tid w")
  with api_getTask_effect [of tid w] have same: "w_tasks w1 = w_tasks w" by simp
  from g adds_api_getTask [of tid] have k1: "only_adds w w1"
    by (auto simp: steps_in_def dest: spec [of _ w])
  show "only_adds w (snd (bindE (api_getTask tid) (\<lambda>task.
        let currentLabels = labels_or_empty task in
        if name \<notin> set currentLabels
        then api_updateTask tid (currentLabels @ [name])
        else ret ()) w))"
  proof (cases r)
    case (Inl e)
    with g k1 show ?thesis by (simp add: bindE_def)
  next
    case (Inr task)
    with g have "find (\<lambda>t. task_id t = tid) (w_tasks w1) = Some task"
      using api_getTask_result same by simp
    then have "only_adds w1 (snd (api_updateTask tid (labels_or_empty task @ [name]) w1))"
      by (rule api_updateTask_adds)
    with k1 have "only_adds w (snd (api_updateTask tid (labels_or_empty task @ [name]) w1))"
      by (rule only_adds_trans)
    with g Inr k1 show ?thesis
      by (simp add: bindE_def Let_def ret_def)
  qed
qed

lemma adds_as_task_id: "steps_in only_adds (as_task_id v)"
  by (auto simp: as_task_id_def intro: adds_ret adds_throwE split: option.splits json.splits)

lemma adds_addRecentlyCreatedLabel: "steps_in only_adds (addRecentlyCreatedLabel env taskId)"
  unfolding addRecentlyCreatedLabel_def
  by (auto simp: split_def intro!: adds_throwE adds_try_catch adds_bindE adds_ensureLabelsExist
      adds_as_task_id adds_add_label adds_ret adds_liftE)

lemma adds_addRecentlyUpdatedLabel: "steps_in only_adds (addRecentlyUpdatedLabel env taskId)"
  unfolding addRecentlyUpdatedLabel_def
  by (auto simp: split_def intro!: adds_throwE adds_try_catch adds_bindE adds_ensureLabelsExist
      adds_as_task_id adds_add_label adds_ret adds_liftE)

lemma adds_handleWebhook: "steps_in only_adds (handleWebhook env payload)"
  unfolding handleWebhook_def Let_def
  by (auto intro!: adds_bindE adds_liftE adds_ret adds_addRecentlyCreatedLabel
      adds_addRecentlyUpdatedLabel)

text \<open>
  C3. Whatever event the webhook service handles, and whichever requests fail: every list
  it writes (every \<^verbatim>\<open>updateTask\<close> request it makes) holds every label the task had before
  the event, and every task of the store is afterwards the same task with every label it
  had before. The only list the service ever writes is the task's current list with one
  name appended; removing a recency label is left to the sweeps.
\<close>

theorem reactive_only_adds:
  "only_adds w (snd (handleWebhook env payload w))"
  using adds_handleWebhook [of env payload] by (simp add: steps_in_def)

theorem reactive_only_adds_witness:
  "w_tasks labelled_store = [fresh_task] \<and> labels fresh_task = Some [''work'']
   \<and> w_log labelled_store = []
   \<and> w_tasks (snd (handleWebhook sample_env (item_updated_payload (JStr ''item_updated''))
                      labelled_store))
       = [fresh_task\<lparr>labels := Some [''work'', ''recently updated'']\<rparr>]
   \<and> w_log (snd (handleWebhook sample_env (item_updated_payload (JStr ''item_updated''))
                      labelled_store))
       = [GetLabels, GetTask ''t1'', UpdateTask ''t1'' [''work'', ''recently updated'']]
   \<and> only_adds labelled_store
        (snd (handleWebhook sample_env (item_updated_payload (JStr ''item_updated''))
                labelled_store))"
proof -
  have "w_tasks labelled_store = [fresh_task] \<and> labels fresh_task = Some [''work'']
   \<and> w_log labelled_store = []
   \<and> w_tasks (snd (handleWebhook sample_env (item_updated_payload (JStr ''item_updated''))
                      labelled_store))
       = [fresh_task\<lparr>labels := Some [''work'', ''recently updated'']\<rparr>]
   \<and> w_log (snd (handleWebhook sample_env (item_updated_payload (JStr ''item_updated''))
                      labelled_store))
       = [GetLabels, GetTask ''t1'', UpdateTask ''t1'' [''work'', ''recently updated'']]"
    by code_simp
  with reactive_only_adds [of labelled_store sample_env "item_updated_payload (JStr ''item_updated'')"]
  show ?thesis by blast
qed

section \<open>The answer of the webhook endpoint\<close>






text \<open>
  The same answer meets a payload whose event name has no text: the first statement of
  \<^verbatim>\<open>handleWebhook\<close> cannot build its log line.
\<close>

lemma handler_rejects_name_without_text:
  "handleWebhook sample_env
     (JObj [(''event_name'', JObj [(''toString'', JNum 1)]),
            (''event_data'', JObj [(''id'', JStr ''t1'')])]) failing_store
     = (Inl TypeError, failing_store)"
  by (simp add: handleWebhook_def bindE_def liftE_def js_ToString_def)



section \<open>The update intent\<close>

lemma js_falsy_iff:
  "\<not> js_truthy v \<longleftrightarrow>
     v \<in> {None, Some JNull, Some (JBool False), Some (JNum 0), Some (JStr [])}"
  by (cases v rule: js_truthy.cases) auto

text \<open>
  C8, as stated, fails: the test is \<^verbatim>\<open>!updateIntent || updateIntent === "item_updated"\<close>,
  and an intent that is present but empty is falsy. The label is added.
\<close>

theorem update_intent_empty_string_adds:
  "update_intent_of (item_updated_payload (JStr '''')) = Some (JStr '''')
   \<and> w_tasks labelled_store = [fresh_task]
   \<and> labels fresh_task = Some [''work'']
   \<and> w_tasks (snd (handleWebhook sample_env (item_updated_payload (JStr '''')) labelled_store))
        = [fresh_task\<lparr>labels := Some [''work'', ''recently updated'']\<rparr>]"
  by code_simp

text \<open>
  C8, amended. For an \<^verbatim>\<open>item:updated\<close> event whose item id has a text, the service
  runs \<^verbatim>\<open>addRecentlyUpdatedLabel\<close> exactly when the update intent is absent, falsy
  (\<^verbatim>\<open>null\<close>, \<^verbatim>\<open>false\<close>, \<^verbatim>\<open>0\<close>, the empty string) or equal to \<^verbatim>\<open>"item_updated"\<close>. For
  every other intent no request is made and the store is left as it was: the service
  returns at once. It also leaves the store as it was, with a \<^verbatim>\<open>TypeError\<close>, when the id
  has no text, since the log line comes before the \<^verbatim>\<open>switch\<close>.
\<close>

theorem update_intent_gate:
  assumes "js_prop payload ''event_name'' = Inr (Some (JStr ''item:updated''))"
    and "js_prop payload ''event_data'' = Inr event_data"
    and "js_get event_data ''id'' = Inr taskId"
  shows "(update_intent_of payload \<in>
            {None, Some JNull, Some (JBool False), Some (JNum 0), Some (JStr []),
             Some (JStr ''item_updated'')}
          \<and> js_ToString taskId = Inr ()
          \<longrightarrow> handleWebhook env payload w = addRecentlyUpdatedLabel env taskId w)
       \<and> (update_intent_of payload \<notin>
            {None, Some JNull, Some (JBool False), Some (JNum 0), Some (JStr []),
             Some (JStr ''item_updated'')}
          \<and> js_ToString taskId = Inr ()
          \<longrightarrow> handleWebhook env payload w = (Inr (), w))
       \<and> (js_ToString taskId \<noteq> Inr ()
          \<longrightarrow> handleWebhook env payload w = (Inl TypeError, w))"
proof -
  have q: "qualifying_intent (update_intent_of payload) \<longleftrightarrow>
        update_intent_of payload \<in>
            {None, Some JNull, Some (JBool False), Some (JNum 0), Some (JStr []),
             Some (JStr ''item_updated'')}"
    unfolding qualifying_intent_def js_falsy_iff by auto
  have n: "js_ToString (Some (JStr ''item:updated'')) = Inr ()"
    by (simp add: js_ToString_def)
  have ok: "handleWebhook env payload w =
          (if qualifying_intent (update_intent_of payload)
           then addRecentlyUpdatedLabel env taskId w else (Inr (), w))"
    if "js_ToString taskId = Inr ()"
    using that by (simp add: handleWebhook_def bindE_def liftE_def assms n ret_def Let_def)
  have bad: "handleWebhook env payload w = (Inl TypeError, w)"
    if "js_ToString taskId \<noteq> Inr ()"
  proof -
    from that have "js_ToString taskId = Inl TypeError"
      by (auto simp: js_ToString_def split: option.splits if_splits)
    then show ?thesis
      by (simp add: handleWebhook_def bindE_def liftE_def assms n)
  qed
  from ok bad show ?thesis unfolding q by simp
qed

theorem update_intent_gate_witness:
  "js_prop (item_updated_payload (JStr ''item_completed'')) ''event_name''
      = Inr (Some (JStr ''item:updated''))
   \<and> js_get (Some (JObj [(''id'', JStr ''t1'')])) ''id'' = Inr (Some (JStr ''t1''))
   \<and> js_ToString (Some (JStr ''t1'')) = Inr ()
   \<and> update_intent_of (item_updated_payload (JStr ''item_completed'')) = Some (JStr ''item_completed'')
   \<and> handleWebhook sample_env (item_updated_payload (JStr ''item_completed'')) labelled_store
        = (Inr (), labelled_store)
   \<and> update_intent_of (item_updated_payload (JStr ''item_updated'')) = Some (JStr ''item_updated'')
   \<and> handleWebhook sample_env (item_updated_payload (JStr ''item_updated'')) labelled_store
        = addRecentlyUpdatedLabel sample_env (Some (JStr ''t1'')) labelled_store"
proof -
  have h1: "js_prop (item_updated_payload i) ''event_name'' = Inr (Some (JStr ''item:updated''))" for i
    by (simp add: item_updated_payload_def)
  have h2: "js_prop (item_updated_payload i) ''event_data'' = Inr (Some (JObj [(''id'', JStr ''t1'')]))" for i
    by (simp add: item_updated_payload_def)
  have h3: "js_get (Some (JObj [(''id'', JStr ''t1'')])) ''id'' = Inr (Some (JStr ''t1''))"
    by (simp add: js_get_def)
  have h4: "js_ToString (Some (JStr ''t1'')) = Inr ()"
    by (simp add: js_ToString_def)
  have u: "update_intent_of (item_updated_payload (JStr i)) = Some (JStr i)" for i
    by (simp add: update_intent_of_def item_updated_payload_def js_get_opt_def)
  show ?thesis
    using update_intent_gate [OF h1 h2 h3, of "JStr ''item_completed''" sample_env labelled_store]
      update_intent_gate [OF h1 h2 h3, of "JStr ''item_updated''" sample_env labelled_store]
      h1 h3 h4
    by (simp add: u)
qed

section \<open>Resolving the two labels\<close>

lemma api_request_no_fault:
  "w_faults w = [] \<Longrightarrow> api_request c w = (Inr (), w\<lparr>w_log := w_log w @ [c]\<rparr>)"
  by (simp add: api_request_def)

lemma api_getLabels_no_fault:
  "w_faults w = [] \<Longrightarrow> api_getLabels w = (Inr (w_labels w), w\<lparr>w_log := w_log w @ [GetLabels]\<rparr>)"
  by (simp add: api_getLabels_def bindE_def api_request_no_fault)

lemma api_addLabel_no_fault:
  "w_faults w = [] \<Longrightarrow>
   api_addLabel name w =
     (Inr \<lparr>label_id = fresh_label_id (w_labels w), label_name = name\<rparr>,
      w\<lparr>w_log := w_log w @ [AddLabel name],
        w_labels := w_labels w @ [\<lparr>label_id = fresh_label_id (w_labels w), label_name = name\<rparr>]\<rparr>)"
  by (simp add: api_addLabel_def bindE_def api_request_no_fault Let_def)

lemma find_append_cases:
  "find P (xs @ ys) = (case find P xs of None \<Rightarrow> find P ys | Some x \<Rightarrow> Some x)"
  by (induction xs) auto

lemma find_holds: "find P xs = Some x \<Longrightarrow> P x"
  by (induction xs) (auto split: if_splits)

lemma recency_names_differ: "RECENTLY_CREATED_LABEL \<noteq> RECENTLY_UPDATED_LABEL"
  by (simp add: RECENTLY_CREATED_LABEL_def RECENTLY_UPDATED_LABEL_def)

lemma ensureLabelsExist_no_fault:
  assumes "api_initialized env" and "w_faults w = []"
  shows "ensureLabelsExist env w =
           (Inr (resolved_created (w_labels w), resolved_updated (w_labels w)),
            w\<lparr>w_labels := labels_after_resolve (w_labels w),
              w_log := w_log w @ resolve_requests (w_labels w)\<rparr>)"
  using assms
  by (simp add: ensureLabelsExist_def bindE_def api_getLabels_no_fault api_addLabel_no_fault
      ret_def Let_def resolved_created_def resolved_updated_def labels_after_created_def
      labels_after_resolve_def resolve_requests_def
      split: option.splits)

lemma find_created_after_resolve:
  "find (\<lambda>label. label_name label = RECENTLY_CREATED_LABEL) (labels_after_resolve ls)
     = Some (resolved_created ls)"
  by (auto simp: labels_after_resolve_def labels_after_created_def resolved_created_def
      resolved_updated_def find_append_cases recency_names_differ split: option.splits)

lemma find_updated_after_resolve:
  "find (\<lambda>label. label_name label = RECENTLY_UPDATED_LABEL) (labels_after_resolve ls)
     = Some (resolved_updated ls)"
  using recency_names_differ
  by (auto simp: labels_after_resolve_def labels_after_created_def resolved_created_def
      resolved_updated_def find_append_cases split: option.splits)

lemma resolved_names:
  "label_name (resolved_created ls) = RECENTLY_CREATED_LABEL
   \<and> label_name (resolved_updated ls) = RECENTLY_UPDATED_LABEL"
  by (auto simp: resolved_created_def resolved_updated_def split: option.splits dest: find_holds)

text \<open>
  C7, as stated, fails: \<^verbatim>\<open>ensureLabelsExist\<close> keeps nothing between two calls. On a store
  without labels the second call of a run sends \<^verbatim>\<open>getLabels\<close> again.
\<close>

theorem ensureLabelsExist_second_fetch:
  "w_log (snd (ensureLabelsExist sample_env (snd (ensureLabelsExist sample_env empty_store))))
     = [GetLabels, AddLabel ''recently created'', AddLabel ''recently updated'', GetLabels]"
  by code_simp

text \<open>
  C7, amended. When no request fails, a call of \<^verbatim>\<open>ensureLabelsExist\<close> fetches the label
  collection once, creates each of the two labels that is missing (\<open>resolve_requests\<close>) and
  returns labels of the two names, which are then the first matches in the store. A second
  call from the state the first one left fetches the collection again, creates nothing
  and returns the same two labels.
\<close>

theorem ensureLabelsExist_fetches_each_time:
  assumes "api_initialized env" and "w_faults w = []"
  shows "\<exists>createdLabel updatedLabel w1.
           ensureLabelsExist env w = (Inr (createdLabel, updatedLabel), w1)
           \<and> label_name createdLabel = RECENTLY_CREATED_LABEL
           \<and> label_name updatedLabel = RECENTLY_UPDATED_LABEL
           \<and> w_log w1 = w_log w @ resolve_requests (w_labels w)
           \<and> find (\<lambda>label. label_name label = RECENTLY_CREATED_LABEL) (w_labels w1) = Some createdLabel
           \<and> find (\<lambda>label. label_name label = RECENTLY_UPDATED_LABEL) (w_labels w1) = Some updatedLabel
           \<and> ensureLabelsExist env w1
               = (Inr (createdLabel, updatedLabel), w1\<lparr>w_log := w_log w1 @ [GetLabels]\<rparr>)"
proof -
  define w1 where "w1 = w\<lparr>w_labels := labels_after_resolve (w_labels w),
              w_log := w_log w @ resolve_requests (w_labels w)\<rparr>"
  have first: "ensureLabelsExist env w =
      (Inr (resolved_created (w_labels w), resolved_updated (w_labels w)), w1)"
    unfolding w1_def by (rule ensureLabelsExist_no_fault [OF assms])
  have nf: "w_faults w1 = []" using assms(2) by (simp add: w1_def)
  have l1: "w_labels w1 = labels_after_resolve (w_labels w)" by (simp add: w1_def)
  have fc: "find (\<lambda>label. label_name label = RECENTLY_CREATED_LABEL) (w_labels w1)
              = Some (resolved_created (w_labels w))"
    unfolding l1 by (rule find_created_after_resolve)
  have fu: "find (\<lambda>label. label_name label = RECENTLY_UPDATED_LABEL) (w_labels w1)
              = Some (resolved_updated (w_labels w))"
    unfolding l1 by (rule find_updated_after_resolve)
  have second: "ensureLabelsExist env w1 =
      (Inr (resolved_created (w_labels w), resolved_updated (w_labels w)),
       w1\<lparr>w_log := w_log w1 @ [GetLabels]\<rparr>)"
    using fc fu
    by (simp add: ensureLabelsExist_no_fault [OF assms(1) nf] resolved_created_def
        resolved_updated_def labels_after_resolve_def labels_after_created_def
        resolve_requests_def)
  have lg: "w_log w1 = w_log w @ resolve_requests (w_labels w)" by (simp add: w1_def)
  from first resolved_names [of "w_labels w"] lg fc fu second show ?thesis by blast
qed

theorem ensureLabelsExist_fetches_each_time_witness:
  "api_initialized sample_env \<and> w_faults empty_store = []
   \<and> (\<exists>createdLabel updatedLabel w1.
           ensureLabelsExist sample_env empty_store = (Inr (createdLabel, updatedLabel), w1)
           \<and> w_log w1 = [GetLabels, AddLabel ''recently created'', AddLabel ''recently updated'']
           \<and> ensureLabelsExist sample_env w1
               = (Inr (createdLabel, updatedLabel), w1\<lparr>w_log := w_log w1 @ [GetLabels]\<rparr>))"
proof -
  have h1: "api_initialized sample_env"
    by (simp add: api_initialized_def sample_env_def str_or_def)
  have h2: "w_faults empty_store = []" by (simp add: empty_store_def)
  have r: "w_log empty_store @ resolve_requests (w_labels empty_store)
           = [GetLabels, AddLabel ''recently created'', AddLabel ''recently updated'']"
    by (simp add: empty_store_def resolve_requests_def RECENTLY_CREATED_LABEL_def
        RECENTLY_UPDATED_LABEL_def)
  show ?thesis
    using ensureLabelsExist_fetches_each_time [OF h1 h2] h1 h2 unfolding r by blast
qed

section \<open>The cleanup sweep\<close>

lemma find_None_name: "name \<notin> label_name ` set ls \<Longrightarrow> find (\<lambda>label. label_name label = name) ls = None"
  by (induction ls) auto

lemma api_getLabels_outcome:
  "api_getLabels w =
     (if next_request_fails w then Inl RemoteCallFailure else Inr (w_labels w),
      w\<lparr>w_faults := tl (w_faults w), w_log := w_log w @ [GetLabels]\<rparr>)"
  by (cases "w_faults w")
     (auto simp: api_getLabels_def bindE_def api_request_def next_request_fails_def)

text \<open>
  C10, as stated, fails: the fetch of the label collection is itself a request, inside the
  outer \<^verbatim>\<open>try\<close>. When it fails on a store that has neither label, the \<^verbatim>\<open>catch\<close> ends the
  process with \<^verbatim>\<open>Deno.exit(1)\<close>: the sweep does not return successfully.
\<close>

theorem cleanup_exits_when_fetch_fails:
  "w_labels failing_store = []
   \<and> api_initialized sample_env
   \<and> main_cleanup sample_parse sample_env sample_now failing_store
       = (Exited 1, failing_store\<lparr>w_faults := [], w_log := [GetLabels]\<rparr>)"
  by code_simp

text \<open>
  C10, amended. When the store's label collection holds neither \<^verbatim>\<open>"recently created"\<close>
  nor \<^verbatim>\<open>"recently updated"\<close>, the cleanup sweep creates no label and writes to no task,
  whatever the environment and whichever requests fail: its only request is the fetch of
  the label collection. It returns normally exactly when the client is initialised and
  that fetch succeeds; it exits with status 1 when the fetch fails, and throws when the
  client is missing.
\<close>

theorem cleanup_nothing_to_do:
  assumes "RECENTLY_CREATED_LABEL \<notin> label_name ` set (w_labels w)"
    and "RECENTLY_UPDATED_LABEL \<notin> label_name ` set (w_labels w)"
  shows "w_labels (snd (main_cleanup parse env now w)) = w_labels w
         \<and> w_tasks (snd (main_cleanup parse env now w)) = w_tasks w
         \<and> w_log (snd (main_cleanup parse env now w))
             = w_log w @ (if api_initialized env then [GetLabels] else [])
         \<and> fst (main_cleanup parse env now w)
             = (if \<not> api_initialized env then Threw ApiNotInitialized
                else if next_request_fails w then Exited 1
                else Returned)"
  using assms
  by (simp add: main_cleanup_def cleanup_body_def bindE_def api_getLabels_outcome
      find_None_name ret_def)

theorem cleanup_nothing_to_do_witness:
  "RECENTLY_CREATED_LABEL \<notin> label_name ` set (w_labels unlabelled_store)
   \<and> RECENTLY_UPDATED_LABEL \<notin> label_name ` set (w_labels unlabelled_store)
   \<and> api_initialized sample_env \<and> \<not> next_request_fails unlabelled_store
   \<and> w_tasks unlabelled_store = [unsorted_task]
   \<and> main_cleanup sample_parse sample_env sample_now unlabelled_store
        = (Returned, unlabelled_store\<lparr>w_faults := [True], w_log := [GetLabels]\<rparr>)
   \<and> w_labels (snd (main_cleanup sample_parse sample_env sample_now unlabelled_store))
        = w_labels unlabelled_store
   \<and> w_tasks (snd (main_cleanup sample_parse sample_env sample_now unlabelled_store))
        = [unsorted_task]
   \<and> w_log (snd (main_cleanup sample_parse sample_env sample_now unlabelled_store))
        = [GetLabels]"
proof -
  have h1: "RECENTLY_CREATED_LABEL \<notin> label_name ` set (w_labels unlabelled_store)"
    by (simp add: unlabelled_store_def RECENTLY_CREATED_LABEL_def)
  have h2: "RECENTLY_UPDATED_LABEL \<notin> label_name ` set (w_labels unlabelled_store)"
    by (simp add: unlabelled_store_def RECENTLY_UPDATED_LABEL_def)
  have h3: "api_initialized sample_env"
    by (simp add: api_initialized_def sample_env_def str_or_def)
  have h4: "\<not> next_request_fails unlabelled_store"
    by (simp add: next_request_fails_def unlabelled_store_def)
  have h5: "w_tasks unlabelled_store = [unsorted_task]" "w_log unlabelled_store = []"
    by (simp_all add: unlabelled_store_def)
  have v: "main_cleanup sample_parse sample_env sample_now unlabelled_store
        = (Returned, unlabelled_store\<lparr>w_faults := [True], w_log := [GetLabels]\<rparr>)"
    by code_simp
  show ?thesis
    using cleanup_nothing_to_do [OF h1 h2, of sample_parse sample_env sample_now] h1 h2 h3 h4 h5 v
    by simp
qed

section \<open>The combined sweep\<close>

lemma filter_remove1_other: "\<not> P x \<Longrightarrow> filter P (remove1 x xs) = filter P xs"
  by (induction xs) auto

lemma handle_label_frame:
  "\<not> P name \<Longrightarrow> filter P (handle_label ls name should) = filter P ls"
  by (simp add: handle_label_def filter_remove1_other)






text \<open>
  Nor does the sweep converge on a list with duplicates: each run deletes one occurrence.
\<close>

lemma labeling_keeps_a_duplicate:
  "labels_after_labeling sample_parse (recentThreshold sample_now) created_label updated_label
     (stale_created_task\<lparr>labels := Some [''recently created'', ''recently created'']\<rparr>)
     = [''recently created'', ''recently updated'']"
  by code_simp


text \<open>The whole sweep, when no request fails.\<close>

lemma set_labels_ids [simp]: "map task_id (set_labels tid ls ts) = map task_id ts"
  by (induction ts) auto




























section \<open>The cleanup sweep on a whole store\<close>












section \<open>Labels that are not recency labels\<close>

text \<open>
  No edit touches a name it was not called for, so the other labels keep their order in
  the list each sweep builds, and in the list the webhook service writes.
\<close>

lemma labeling_newLabels_frame:
  "\<not> P (label_name rc) \<Longrightarrow> \<not> P (label_name ru) \<Longrightarrow>
   filter P (labeling_newLabels rc ru info) = filter P (labels_or_empty (info_task info))"
  by (simp add: labeling_newLabels_def handle_label_frame)

lemma remove_stale_frame:
  "(\<And>l. label = Some l \<Longrightarrow> \<not> P (label_name l)) \<Longrightarrow>
   filter P (fst (remove_stale label isRecent st)) = filter P (fst st)"
  by (cases st) (auto simp: remove_stale_def filter_remove1_other split: option.splits)

lemma cleanup_newLabels_frame:
  "(\<And>l. rc = Some l \<Longrightarrow> \<not> P (label_name l)) \<Longrightarrow> (\<And>l. ru = Some l \<Longrightarrow> \<not> P (label_name l)) \<Longrightarrow>
   filter P (fst (cleanup_newLabels parse threshold rc ru task)) = filter P (labels_or_empty task)"
  by (simp add: cleanup_newLabels_def remove_stale_frame)

lemma webhook_write_frame:
  "\<not> P name \<Longrightarrow> filter P (currentLabels @ [name]) = filter P currentLabels"
  by simp

text \<open>
  C4 says that the list an invocation writes keeps every label that is not a recency
  label, in the same relative order. The combined sweep breaks it: the comparison that
  decides whether to write calls \<^verbatim>\<open>newLabels.sort()\<close>, which sorts the array in place,
  and the next line hands that array to \<^verbatim>\<open>updateTask\<close>. A task one hour old with the
  labels \<^verbatim>\<open>work, home\<close> is written back as \<^verbatim>\<open>home, recently created, work\<close>: the names
  are kept, their order is not.
\<close>

theorem labeling_reorders_other_labels:
  "labels unsorted_task = Some [''work'', ''home'']
   \<and> fst (main_labeling sample_parse every_task sample_env sample_now unsorted_store) = Returned
   \<and> w_tasks (snd (main_labeling sample_parse every_task sample_env sample_now unsorted_store))
       = [unsorted_task\<lparr>labels := Some [''home'', ''recently created'', ''work'']\<rparr>]
   \<and> filter non_recency [''home'', ''recently created'', ''work''] = [''home'', ''work'']
   \<and> filter non_recency [''work'', ''home''] = [''work'', ''home'']"
  by code_simp

end
